theory Spec2Isabelle
  imports Complex_Main
begin

section \<open>Python values, exceptions and dictionaries\<close>

text \<open>
  Floats are modelled as real numbers, so rounding, infinities and the result of dividing
  by a zero scale are outside the model. The one float that the source tests with
  \<^verbatim>\<open>np.isnan\<close> is a bound, so a bound is either \<open>NaN\<close> (unset) or a number.
\<close>

datatype exn =
    ValueError
  | UnboundLocalError
  | NotImplementedError
  | RuntimeError
  | LengthMismatch

datatype bound = NaN | Num real

datatype pyval = PyFloat real | PyInt nat | PyBool bool | PyStr string

type_synonym pydict = "string \<rightharpoonup> pyval"

section \<open>The parameter set\<close>

text \<open>
  Modelled from the spec: the \<^verbatim>\<open>Parameter\<close> and \<^verbatim>\<open>Parameters\<close> classes are not
  among the sources. A parameter has a name, a value (the field \<open>par_value\<close>), a scale,
  two optimizer-space bounds (each possibly unset) and a frozen flag; its factor is
  \<open>value / scale\<close>, and writing the factor writes \<open>factor * scale\<close> to the value. A
  parameter whose scale is zero has no factor in the program, so what is proved about the
  value of a factor or of a quotient by the scale assumes a scale that is not zero. A
  parameter set is the ordered sequence of its parameters; a parameter of the set is
  denoted by its position.
\<close>

record Parameter =
  name :: string
  par_value :: real
  scale :: real
  factor_min :: bound
  factor_max :: bound
  frozen :: bool

type_synonym Parameters = "Parameter list"

definition factor :: "Parameter \<Rightarrow> real" where
  "factor par = par_value par / scale par"

definition set_factor :: "real \<Rightarrow> Parameter \<Rightarrow> Parameter" where
  "set_factor v par = par\<lparr>par_value := v * scale par\<rparr>"

definition free_parameters :: "Parameters \<Rightarrow> Parameter list" where
  "free_parameters parameters = filter (\<lambda>par. \<not> frozen par) parameters"

text \<open>
  Modelled from the spec: \<^verbatim>\<open>Parameters.restore_values\<close> is not among the sources. It
  is a scoped capture that snapshots every parameter's value and frozen flag and writes
  the snapshot back on every exit path of the scope, normal or failing; the failure of
  the body, if any, is passed on after the restoration.
\<close>

definition snapshot :: "Parameters \<Rightarrow> (real \<times> bool) list" where
  "snapshot parameters = map (\<lambda>par. (par_value par, frozen par)) parameters"

fun restore :: "(real \<times> bool) list \<Rightarrow> Parameters \<Rightarrow> Parameters" where
  "restore [] parameters = parameters"
| "restore (s # ss) [] = []"
| "restore ((v, fr) # ss) (par # parameters) =
     par\<lparr>par_value := v, frozen := fr\<rparr> # restore ss parameters"

definition restore_values ::
  "(Parameters \<Rightarrow> (exn + 'a) \<times> Parameters) \<Rightarrow> Parameters \<Rightarrow> (exn + 'a) \<times> Parameters" where
  "restore_values body parameters =
     (let saved = snapshot parameters;
          (r, parameters') = body parameters
      in (r, restore saved parameters'))"

section \<open>External numerical routines\<close>

text \<open>
  \<^verbatim>\<open>scipy.optimize.minimize\<close> and \<^verbatim>\<open>scipy.optimize.brentq\<close> are external. Each is a
  deterministic routine that, from its arguments, repeatedly asks for the value of the
  callback at a point of its choice and finally returns a result or raises; it touches the
  parameter set only through the callback. Such a routine is a well-founded tree of
  requests, and running it threads the parameter set through the callback's evaluations.
  An exception raised by the callback ends the run and is passed on.
\<close>

datatype ('q, 'r) routine =
    Return 'r
  | Raise exn
  | Eval 'q "real \<Rightarrow> ('q, 'r) routine"

primrec run ::
  "('q \<Rightarrow> 's \<Rightarrow> (exn + real) \<times> 's) \<Rightarrow> ('q, 'r) routine \<Rightarrow> 's \<Rightarrow> (exn + 'r) \<times> 's" where
  "run fcn (Return r) s = (Inr r, s)"
| "run fcn (Raise e) s = (Inl e, s)"
| "run fcn (Eval q k) s =
     (case fcn q s of
        (Inl e, s') \<Rightarrow> (Inl e, s')
      | (Inr v, s') \<Rightarrow> run fcn (k v) s')"

text \<open>The points at which a run evaluates the callback, in order.\<close>

primrec evaluations ::
  "('q \<Rightarrow> 's \<Rightarrow> (exn + real) \<times> 's) \<Rightarrow> ('q, 'r) routine \<Rightarrow> 's \<Rightarrow> 'q list" where
  "evaluations fcn (Return r) s = []"
| "evaluations fcn (Raise e) s = []"
| "evaluations fcn (Eval q k) s =
     q # (case fcn q s of
            (Inl e, s') \<Rightarrow> []
          | (Inr v, s') \<Rightarrow> evaluations fcn (k v) s')"

text \<open>The result object of \<^verbatim>\<open>minimize\<close>: final point, success flag, message, evaluation count.\<close>

record OptimizeResult =
  res_x :: "real list"
  res_success :: bool
  res_message :: string
  res_nfev :: nat

text \<open>
  A minimizer takes the method, the remaining keyword options, the initial vector and the
  list of bound pairs. A root finder takes the endpoints \<open>a\<close> and \<open>b\<close> and the remaining
  keyword arguments, and returns the root and the iteration count. The keyword arguments
  of \<^verbatim>\<open>confidence_scipy\<close> are the two endpoints, each given or not, and the rest.
\<close>

type_synonym minimizer =
  "pyval \<Rightarrow> pydict \<Rightarrow> real list \<Rightarrow> (real option \<times> real option) list
     \<Rightarrow> (real list, OptimizeResult) routine"

record brentq_kwargs =
  kw_a :: "real option"
  kw_b :: "real option"
  kw_rest :: pydict

type_synonym root_finder = "real \<Rightarrow> real \<Rightarrow> pydict \<Rightarrow> (real, real \<times> nat) routine"

section \<open>The likelihood adapter\<close>

text \<open>
  Modelled from the spec: the \<^verbatim>\<open>Likelihood\<close> class is not among the sources. Its
  \<^verbatim>\<open>fcn\<close> writes each entry of the factor vector into the corresponding free parameter, in
  the order of the set, and evaluates the objective on the whole set; a vector whose length
  is not the number of free parameters is a length-mismatch error. The objective is a
  deterministic function of the state of the parameter set.
\<close>

fun set_parameter_factors :: "real list \<Rightarrow> Parameters \<Rightarrow> Parameters" where
  "set_parameter_factors factors [] = []"
| "set_parameter_factors factors (par # parameters) =
     (if frozen par then par # set_parameter_factors factors parameters
      else (case factors of
              [] \<Rightarrow> par # parameters
            | v # factors' \<Rightarrow> set_factor v par # set_parameter_factors factors' parameters))"

definition Likelihood_fcn ::
  "(Parameters \<Rightarrow> real) \<Rightarrow> real list \<Rightarrow> Parameters \<Rightarrow> (exn + real) \<times> Parameters" where
  "Likelihood_fcn function factors parameters =
     (if length factors \<noteq> length (free_parameters parameters)
      then (Inl LengthMismatch, parameters)
      else (let parameters' = set_parameter_factors factors parameters
            in (Inr (function parameters'), parameters')))"

section \<open>The point optimizer\<close>

text \<open>
  \<^verbatim>\<open>optimize_scipy\<close> in three parts: the list of bound pairs built by its loop, the call
  of the external minimizer on the adapter (everything up to the assignment of
  \<^verbatim>\<open>result\<close>), and the triple returned from the minimizer's result. There is no other
  statement in the function.
\<close>

definition free_bounds :: "Parameters \<Rightarrow> (real option \<times> real option) list" where
  "free_bounds parameters =
     map (\<lambda>par.
            (let parmin = (case factor_min par of NaN \<Rightarrow> None | Num v \<Rightarrow> Some v);
                 parmax = (case factor_max par of NaN \<Rightarrow> None | Num v \<Rightarrow> Some v)
             in (parmin, parmax)))
         (free_parameters parameters)"

definition minimize_call ::
  "minimizer \<Rightarrow> Parameters \<Rightarrow> (Parameters \<Rightarrow> real) \<Rightarrow> pydict
     \<Rightarrow> (real list, OptimizeResult) routine" where
  "minimize_call minimize parameters function kwargs =
     (let method = (case kwargs ''method'' of None \<Rightarrow> PyStr ''Nelder-Mead'' | Some m \<Rightarrow> m);
          kwargs' = kwargs(''method'' := None);
          pars = map factor (free_parameters parameters);
          bounds = free_bounds parameters
      in minimize method kwargs' pars bounds)"

definition info_dict :: "OptimizeResult \<Rightarrow> pydict" where
  "info_dict result =
     [''success'' \<mapsto> PyBool (res_success result),
      ''message'' \<mapsto> PyStr (res_message result),
      ''nfev'' \<mapsto> PyInt (res_nfev result)]"

definition optimize_scipy ::
  "minimizer \<Rightarrow> Parameters \<Rightarrow> (Parameters \<Rightarrow> real) \<Rightarrow> pydict
     \<Rightarrow> (exn + real list \<times> pydict \<times> unit option) \<times> Parameters" where
  "optimize_scipy minimize parameters function kwargs =
     (case run (Likelihood_fcn function) (minimize_call minimize parameters function kwargs)
             parameters of
        (Inl e, parameters') \<Rightarrow> (Inl e, parameters')
      | (Inr result, parameters') \<Rightarrow>
          (let factors = res_x result;
               info = info_dict result;
               optimizer = None
           in (Inr (factors, info, optimizer), parameters')))"

section \<open>The profile-likelihood bracketer\<close>

text \<open>
  \<^verbatim>\<open>TSDifference\<close> keeps the reference objective value, the target parameter and the
  threshold; the objective and the parameter set it also refers to are passed to its
  methods here. Its constructor evaluates the objective first and freezes the target
  parameter afterwards.
\<close>

record TSDifference =
  td_loglike_ref :: real
  td_parameter :: nat
  td_ts_diff :: real

definition TSDifference_init ::
  "(Parameters \<Rightarrow> real) \<Rightarrow> Parameters \<Rightarrow> nat \<Rightarrow> real \<Rightarrow> TSDifference \<times> Parameters" where
  "TSDifference_init function parameters parameter ts_diff =
     (\<lparr>td_loglike_ref = function parameters, td_parameter = parameter, td_ts_diff = ts_diff\<rparr>,
      parameters[parameter := (parameters ! parameter)\<lparr>frozen := True\<rparr>])"

definition TSDifference_fcn ::
  "minimizer \<Rightarrow> (Parameters \<Rightarrow> real) \<Rightarrow> TSDifference \<Rightarrow> real \<Rightarrow> Parameters
     \<Rightarrow> (exn + real) \<times> Parameters" where
  "TSDifference_fcn minimize function self fac parameters =
     (let parameters1 =
            parameters[td_parameter self := set_factor fac (parameters ! td_parameter self)]
      in case optimize_scipy minimize parameters1 function Map.empty of
           (Inl e, parameters2) \<Rightarrow> (Inl e, parameters2)
         | (Inr discarded, parameters2) \<Rightarrow>
             (Inr (function parameters2 - td_loglike_ref self - td_ts_diff self), parameters2))"

text \<open>
  The object built by the first statement of \<^verbatim>\<open>_confidence_scipy_brentq\<close>, with the
  state of the parameter set after its construction.
\<close>

definition brentq_ts_diff ::
  "(Parameters \<Rightarrow> real) \<Rightarrow> Parameters \<Rightarrow> nat \<Rightarrow> real \<Rightarrow> TSDifference \<times> Parameters" where
  "brentq_ts_diff function parameters parameter sigma =
     TSDifference_init function parameters parameter (sigma ^ 2)"

text \<open>
  The endpoints \<open>a\<close> and \<open>b\<close> with which the root finder is called: the two
  \<^verbatim>\<open>kwargs.setdefault\<close> calls of \<^verbatim>\<open>_confidence_scipy_brentq\<close> and the computation of the
  bound between them. \<open>err\<close> stands for \<^verbatim>\<open>parameters.error\<close>, the externally supplied
  standard-error estimate.
\<close>

definition search_interval ::
  "(Parameters \<Rightarrow> nat \<Rightarrow> real) \<Rightarrow> Parameters \<Rightarrow> nat \<Rightarrow> bool \<Rightarrow> brentq_kwargs \<Rightarrow> real \<times> real" where
  "search_interval err parameters parameter upper kwargs =
     (let par = parameters ! parameter;
          a = (case kw_a kwargs of None \<Rightarrow> factor par | Some v \<Rightarrow> v);
          bound = (if upper then factor_max par else factor_min par);
          bound' = (case bound of
                      NaN \<Rightarrow> (if upper
                              then factor par + 100 * err parameters parameter / scale par
                              else factor par - 100 * err parameters parameter / scale par)
                    | Num v \<Rightarrow> v);
          b = (case kw_b kwargs of None \<Rightarrow> bound' | Some v \<Rightarrow> v)
      in (a, b))"

definition failure_message :: string where
  "failure_message =
     ''Confidence estimation failed, because bracketing interval'' @
     '' does not contain a unique solution. Try setting the interval by hand.''"

text \<open>
  The dictionary returned by \<^verbatim>\<open>_confidence_scipy_brentq\<close>. The local variable
  \<^verbatim>\<open>result\<close> is bound only when the root finder has returned; the first value of the
  dictionary reads it, which is an \<^verbatim>\<open>UnboundLocalError\<close> when it is unbound.
\<close>

definition result_dict ::
  "bool \<Rightarrow> real \<Rightarrow> TSDifference \<Rightarrow> (real \<times> nat) option \<Rightarrow> string \<Rightarrow> bool \<Rightarrow> exn + pydict" where
  "result_dict upper a ts_diff result message success =
     (let suffix = (if upper then ''errp'' else ''errn'')
      in case result of
           None \<Rightarrow> Inl UnboundLocalError
         | Some (solution, iterations) \<Rightarrow>
             Inr [''nfev_'' @ suffix \<mapsto> PyInt iterations,
                  suffix \<mapsto> PyFloat \<bar>solution - a\<bar>,
                  ''success_'' @ suffix \<mapsto> PyBool success,
                  ''message_'' @ suffix \<mapsto> PyStr message,
                  ''loglike_ref'' \<mapsto> PyFloat (td_loglike_ref ts_diff)])"

text \<open>
  \<^verbatim>\<open>_confidence_scipy_brentq\<close>. The handler of \<^verbatim>\<open>ValueError\<close> sets the message and the
  success flag and leaves \<^verbatim>\<open>result\<close> unbound; any other exception leaves the function
  at once.
\<close>

definition confidence_scipy_brentq ::
  "root_finder \<Rightarrow> minimizer \<Rightarrow> (Parameters \<Rightarrow> nat \<Rightarrow> real) \<Rightarrow> Parameters \<Rightarrow> nat
     \<Rightarrow> (Parameters \<Rightarrow> real) \<Rightarrow> real \<Rightarrow> bool \<Rightarrow> brentq_kwargs
     \<Rightarrow> (exn + pydict) \<times> Parameters" where
  "confidence_scipy_brentq brentq minimize err parameters parameter function sigma upper kwargs =
     (let (ts_diff, parameters1) = brentq_ts_diff function parameters parameter sigma;
          (a, b) = search_interval err parameters1 parameter upper kwargs
      in case run (TSDifference_fcn minimize function ts_diff) (brentq a b (kw_rest kwargs))
                parameters1 of
           (Inl e, parameters2) \<Rightarrow>
             (if e = ValueError
              then (result_dict upper a ts_diff None failure_message False, parameters2)
              else (Inl e, parameters2))
         | (Inr result, parameters2) \<Rightarrow>
             (result_dict upper a ts_diff (Some result)
                ''Confidence terminated successfully.'' True,
              parameters2))"

text \<open>
  The search of \<^verbatim>\<open>_confidence_scipy_brentq\<close> from the call of the root finder on: the
  run of the given call on the evaluation function of the bracketing object, the handler
  and the returned dictionary, with \<open>a\<close> the value of \<^verbatim>\<open>kwargs["a"]\<close>. It abbreviates
  the body of the definition above and serves to state which call a search runs.
\<close>

abbreviation search_on ::
  "(real, real \<times> nat) routine \<Rightarrow> minimizer \<Rightarrow> (Parameters \<Rightarrow> real) \<Rightarrow> TSDifference \<Rightarrow> Parameters
     \<Rightarrow> bool \<Rightarrow> real \<Rightarrow> (exn + pydict) \<times> Parameters" where
  "search_on call minimize function ts_diff parameters1 upper a \<equiv>
     (case run (TSDifference_fcn minimize function ts_diff) call parameters1 of
        (Inl e, parameters2) \<Rightarrow>
          (if e = ValueError
           then (result_dict upper a ts_diff None failure_message False, parameters2)
           else (Inl e, parameters2))
      | (Inr result, parameters2) \<Rightarrow>
          (result_dict upper a ts_diff (Some result)
             ''Confidence terminated successfully.'' True,
           parameters2))"

section \<open>The confidence estimator\<close>

definition confidence_scipy ::
  "root_finder \<Rightarrow> minimizer \<Rightarrow> (Parameters \<Rightarrow> nat \<Rightarrow> real) \<Rightarrow> Parameters \<Rightarrow> nat
     \<Rightarrow> (Parameters \<Rightarrow> real) \<Rightarrow> real \<Rightarrow> brentq_kwargs
     \<Rightarrow> (exn + pydict) \<times> Parameters" where
  "confidence_scipy brentq minimize err parameters parameter function sigma kwargs =
     (case restore_values
             (\<lambda>ps. confidence_scipy_brentq brentq minimize err ps parameter function sigma
                      False kwargs)
             parameters of
        (Inl e, parameters1) \<Rightarrow> (Inl e, parameters1)
      | (Inr result, parameters1) \<Rightarrow>
          (case restore_values
                  (\<lambda>ps. confidence_scipy_brentq brentq minimize err ps parameter function sigma
                           True kwargs)
                  parameters1 of
             (Inl e, parameters2) \<Rightarrow> (Inl e, parameters2)
           | (Inr result_errp, parameters2) \<Rightarrow> (Inr (result ++ result_errp), parameters2)))"

section \<open>The unimplemented covariance estimator\<close>

definition covariance_scipy :: "Parameters \<Rightarrow> (Parameters \<Rightarrow> real) \<Rightarrow> exn + 'a" where
  "covariance_scipy parameters function = Inl NotImplementedError"

section \<open>Example routines and data\<close>

text \<open>
  A minimizer that evaluates the objective at the initial vector moved by one in every
  coordinate and then at the initial vector, returns the better of the two and reports that
  it has not converged.
\<close>

definition minimize_probe :: minimizer where
  "minimize_probe method kwargs x0 bounds =
     Eval (map (\<lambda>v. v + 1) x0) (\<lambda>f1.
       Eval x0 (\<lambda>f0.
         Return \<lparr>res_x = (if f0 \<le> f1 then x0 else map (\<lambda>v. v + 1) x0),
                 res_success = False,
                 res_message = ''Maximum number of function evaluations has been exceeded.'',
                 res_nfev = 2\<rparr>))"

text \<open>
  A root finder that checks the bracketing precondition as \<^verbatim>\<open>brentq\<close> does, raising
  \<^verbatim>\<open>ValueError\<close> when the values at the endpoints have the same sign, and then bisects a
  given number of times.
\<close>

fun bisect :: "nat \<Rightarrow> real \<Rightarrow> real \<Rightarrow> real \<Rightarrow> nat \<Rightarrow> (real, real \<times> nat) routine" where
  "bisect 0 a fa b k = Return ((a + b) / 2, k)"
| "bisect (Suc n) a fa b k =
     Eval ((a + b) / 2) (\<lambda>fm.
       if fm = 0 then Return ((a + b) / 2, Suc k)
       else if fa * fm < 0 then bisect n a fa ((a + b) / 2) (Suc k)
       else bisect n ((a + b) / 2) fm b (Suc k))"

definition brentq_bisect :: "nat \<Rightarrow> root_finder" where
  "brentq_bisect n a b rest =
     Eval a (\<lambda>fa. Eval b (\<lambda>fb. if fa * fb > 0 then Raise ValueError else bisect n a fa b 0))"

text \<open>
  Two parameters at the minimum of the objective \<open>(p - 3)\<^sup>2 + (q - 1)\<^sup>2\<close> of their
  factors, that objective on the set of both, and the objective \<open>(p - 3)\<^sup>2\<close> on the set of
  the first alone. The error estimate of every parameter is 1.
\<close>

definition par_p :: Parameter where
  "par_p = \<lparr>name = ''p'', par_value = 3, scale = 1, factor_min = NaN, factor_max = NaN,
            frozen = False\<rparr>"

definition par_q :: Parameter where
  "par_q = \<lparr>name = ''q'', par_value = 1, scale = 1, factor_min = NaN, factor_max = NaN,
            frozen = False\<rparr>"

definition objective2 :: "Parameters \<Rightarrow> real" where
  "objective2 parameters =
     (case parameters of
        [p, q] \<Rightarrow> (factor p - 3) ^ 2 + (factor q - 1) ^ 2
      | _ \<Rightarrow> 0)"

definition objective1 :: "Parameters \<Rightarrow> real" where
  "objective1 parameters =
     (case parameters of
        [p] \<Rightarrow> (factor p - 3) ^ 2
      | _ \<Rightarrow> 0)"

definition unit_error :: "Parameters \<Rightarrow> nat \<Rightarrow> real" where
  "unit_error parameters parameter = 1"

definition no_kwargs :: brentq_kwargs where
  "no_kwargs = \<lparr>kw_a = None, kw_b = None, kw_rest = Map.empty\<rparr>"

text \<open>
  The two-parameter set with the upper bound of its first parameter at 3.5, inside the
  one-sigma interval; the one-parameter set with its parameter frozen; and keyword
  arguments that override both endpoints of the search.
\<close>

definition bounded_p :: Parameters where
  "bounded_p = [par_p\<lparr>factor_max := Num (7 / 2)\<rparr>, par_q]"

definition frozen_p :: Parameters where
  "frozen_p = [par_p\<lparr>frozen := True\<rparr>]"

definition b_override :: brentq_kwargs where
  "b_override = \<lparr>kw_a = Some 3, kw_b = Some 5, kw_rest = Map.empty\<rparr>"

text \<open>
  A state of the two-parameter set during a search on its first parameter, with the second
  parameter away from its optimum; the bracketing object of that search at one sigma; and
  what the probing minimizer returns for the second parameter.
\<close>

definition profile_state :: Parameters where
  "profile_state = [par_p\<lparr>frozen := True\<rparr>, par_q\<lparr>par_value := 0\<rparr>]"

definition profile_ts_diff :: TSDifference where
  "profile_ts_diff = \<lparr>td_loglike_ref = 0, td_parameter = 0, td_ts_diff = 1\<rparr>"

definition probe_result :: OptimizeResult where
  "probe_result = \<lparr>res_x = [1], res_success = False,
     res_message = ''Maximum number of function evaluations has been exceeded.'',
     res_nfev = 2\<rparr>"

section \<open>Frames\<close>

text \<open>
  What the search never writes: everything of a parameter but its value and its frozen
  flag. Two states of a parameter set have the same frame when they agree on it.
\<close>

definition skeleton :: "Parameter \<Rightarrow> Parameter" where
  "skeleton par = par\<lparr>par_value := 0, frozen := False\<rparr>"

definition same_frame :: "Parameters \<Rightarrow> Parameters \<Rightarrow> bool" where
  "same_frame parameters parameters' = (map skeleton parameters' = map skeleton parameters)"

section \<open>Running a routine keeps an invariant of the callback\<close>

lemma run_invariant:
  assumes step: "\<And>q s r s'. P s \<Longrightarrow> fcn q s = (r, s') \<Longrightarrow> P s'"
  shows "P s \<Longrightarrow> P (snd (run fcn m s))"
proof (induction m arbitrary: s)
  case (Return r)
  then show ?case by simp
next
  case (Raise e)
  then show ?case by simp
next
  case (Eval q k)
  obtain r s' where f: "fcn q s = (r, s')" by (cases "fcn q s")
  with Eval.prems have P': "P s'" by (rule step)
  show ?case
  proof (cases r)
    case (Inl e)
    with f P' show ?thesis by simp
  next
    case (Inr v)
    have "P (snd (run fcn (k v) s'))" by (rule Eval.IH [OF rangeI P'])
    with f Inr show ?thesis by simp
  qed
qed

section \<open>The search writes only values and frozen flags\<close>

lemma skeleton_set_factor: "skeleton (set_factor v par) = skeleton par"
  by (simp add: skeleton_def set_factor_def)

lemma skeleton_frozen: "skeleton (par\<lparr>frozen := b\<rparr>) = skeleton par"
  by (simp add: skeleton_def)

lemma frozen_set_factor: "frozen (set_factor v par) = frozen par"
  by (simp add: set_factor_def)

lemma skeleton_set_parameter_factors:
  "map skeleton (set_parameter_factors factors parameters) = map skeleton parameters"
  by (induction factors parameters rule: set_parameter_factors.induct)
     (simp_all add: skeleton_set_factor split: list.splits)

lemma map_update_same:
  assumes "f y = f (xs ! i)"
  shows "map f (xs[i := y]) = map f xs"
proof (cases "i < length xs")
  case True
  then show ?thesis using assms by (simp add: map_update list_update_same_conv)
next
  case False
  then have "xs[i := y] = xs" by (simp add: list_update_beyond not_less)
  then show ?thesis by simp
qed

lemma same_frame_refl: "same_frame parameters parameters"
  by (simp add: same_frame_def)

lemma same_frame_Likelihood_fcn:
  assumes "same_frame ps0 s" and "Likelihood_fcn function q s = (r, s')"
  shows "same_frame ps0 s'"
  using assms
  by (auto simp: Likelihood_fcn_def same_frame_def Let_def skeleton_set_parameter_factors
           split: if_splits)

lemma same_frame_optimize_scipy:
  assumes "same_frame ps0 s"
  shows "same_frame ps0 (snd (optimize_scipy minimize s function kwargs))"
proof -
  have "same_frame ps0
          (snd (run (Likelihood_fcn function) (minimize_call minimize s function kwargs) s))"
  proof (rule run_invariant [where P = "same_frame ps0"])
    fix q t r t'
    assume "same_frame ps0 t" and "Likelihood_fcn function q t = (r, t')"
    then show "same_frame ps0 t'" by (rule same_frame_Likelihood_fcn)
  next
    show "same_frame ps0 s" by (rule assms)
  qed
  then show ?thesis
    by (auto simp: optimize_scipy_def Let_def split: prod.splits sum.splits)
qed

lemma same_frame_TSDifference_fcn:
  assumes "same_frame ps0 s" and "TSDifference_fcn minimize function self v s = (r, s')"
  shows "same_frame ps0 s'"
proof -
  let ?s1 = "s[td_parameter self := set_factor v (s ! td_parameter self)]"
  have "same_frame ps0 ?s1"
    using assms(1) by (simp add: same_frame_def map_update_same skeleton_set_factor)
  then have "same_frame ps0 (snd (optimize_scipy minimize ?s1 function Map.empty))"
    by (rule same_frame_optimize_scipy)
  with assms(2) show ?thesis
    by (auto simp: TSDifference_fcn_def Let_def split: prod.splits sum.splits)
qed

lemma same_frame_brentq_ts_diff:
  "same_frame parameters (snd (brentq_ts_diff function parameters parameter sigma))"
  by (simp add: brentq_ts_diff_def TSDifference_init_def same_frame_def map_update_same
        skeleton_frozen)

lemma same_frame_confidence_scipy_brentq:
  "same_frame parameters
     (snd (confidence_scipy_brentq brentq minimize err parameters parameter function sigma
             upper kwargs))"
proof -
  obtain ts_diff parameters1 where td:
    "brentq_ts_diff function parameters parameter sigma = (ts_diff, parameters1)"
    by (cases "brentq_ts_diff function parameters parameter sigma")
  obtain a b where ab: "search_interval err parameters1 parameter upper kwargs = (a, b)"
    by (cases "search_interval err parameters1 parameter upper kwargs")
  have "same_frame parameters parameters1"
    using same_frame_brentq_ts_diff td by (metis snd_conv)
  then have fr1: "same_frame parameters parameters1" .
  have "same_frame parameters
      (snd (run (TSDifference_fcn minimize function ts_diff) (brentq a b (kw_rest kwargs))
              parameters1))"
  proof (rule run_invariant [where P = "same_frame parameters"])
    fix q t r t'
    assume "same_frame parameters t"
      and "TSDifference_fcn minimize function ts_diff q t = (r, t')"
    then show "same_frame parameters t'" by (rule same_frame_TSDifference_fcn)
  next
    show "same_frame parameters parameters1" by (rule fr1)
  qed
  then show ?thesis
    by (auto simp: confidence_scipy_brentq_def td ab split: prod.splits sum.splits)
qed

section \<open>Restoration\<close>

lemma restore_snapshot:
  "same_frame parameters parameters' \<Longrightarrow> restore (snapshot parameters) parameters' = parameters"
proof (induction parameters arbitrary: parameters')
  case Nil
  then show ?case by (simp add: same_frame_def snapshot_def)
next
  case (Cons par parameters)
  then obtain par' rest where p': "parameters' = par' # rest"
    by (cases parameters') (auto simp: same_frame_def)
  from Cons.prems p' have sk: "skeleton par' = skeleton par" and fr: "same_frame parameters rest"
    by (simp_all add: same_frame_def)
  from sk have "par'\<lparr>par_value := par_value par, frozen := frozen par\<rparr> = par"
    by (cases par; cases par') (simp add: skeleton_def)
  moreover have "restore (snapshot parameters) rest = parameters"
    using fr by (rule Cons.IH)
  ultimately show ?case
    by (simp add: p' snapshot_def)
qed

lemma restore_values_state:
  assumes "same_frame parameters (snd (body parameters))"
  shows "restore_values body parameters = (fst (body parameters), parameters)"
  using assms by (simp add: restore_values_def Let_def split: prod.splits)
     (metis restore_snapshot snd_conv)

lemma confidence_scipy_unfold:
  "confidence_scipy brentq minimize err parameters parameter function sigma kwargs =
     (case fst (confidence_scipy_brentq brentq minimize err parameters parameter function sigma
                  False kwargs) of
        Inl e \<Rightarrow> (Inl e, parameters)
      | Inr result \<Rightarrow>
          (case fst (confidence_scipy_brentq brentq minimize err parameters parameter function
                       sigma True kwargs) of
             Inl e \<Rightarrow> (Inl e, parameters)
           | Inr result_errp \<Rightarrow> (Inr (result ++ result_errp), parameters)))"
  by (simp add: confidence_scipy_def restore_values_state same_frame_confidence_scipy_brentq
        split: sum.splits)

lemma confidence_scipy_state:
  "snd (confidence_scipy brentq minimize err parameters parameter function sigma kwargs)
     = parameters"
  by (simp add: confidence_scipy_unfold split: sum.splits)

section \<open>Evaluating the examples\<close>

lemmas example_defs =
  confidence_scipy_def restore_values_def confidence_scipy_brentq_def brentq_ts_diff_def
  TSDifference_init_def search_interval_def par_p_def par_q_def no_kwargs_def brentq_bisect_def
  TSDifference_fcn_def optimize_scipy_def minimize_call_def free_bounds_def info_dict_def
  free_parameters_def minimize_probe_def Likelihood_fcn_def objective1_def objective2_def
  factor_def set_factor_def unit_error_def result_dict_def snapshot_def bounded_p_def Let_def
  power2_eq_square

section \<open>A parameter set without free parameters\<close>

lemma set_parameter_factors_all_frozen:
  "free_parameters parameters = [] \<Longrightarrow> set_parameter_factors factors parameters = parameters"
  by (induction factors parameters rule: set_parameter_factors.induct)
     (auto simp: free_parameters_def split: if_splits)

lemma Likelihood_fcn_all_frozen:
  assumes "free_parameters parameters = []"
  shows "snd (Likelihood_fcn function q parameters) = parameters"
  using assms by (simp add: Likelihood_fcn_def Let_def set_parameter_factors_all_frozen)

lemma run_Likelihood_fcn_all_frozen:
  assumes "free_parameters parameters = []"
  shows "snd (run (Likelihood_fcn function) m parameters) = parameters"
proof -
  have "snd (run (Likelihood_fcn function) m parameters) = parameters"
  proof (rule run_invariant [where P = "\<lambda>s. s = parameters"])
    fix q t r t'
    assume "t = parameters" and "Likelihood_fcn function q t = (r, t')"
    then show "t' = parameters"
      using Likelihood_fcn_all_frozen [OF assms, of "function" q] by simp
  qed simp
  then show ?thesis .
qed

section \<open>The handler of the bracketing failure\<close>

lemma confidence_scipy_brentq_ValueError:
  assumes "brentq_ts_diff function parameters parameter sigma = (ts_diff, parameters1)"
    and "search_interval err parameters1 parameter upper kwargs = (a, b)"
    and "run (TSDifference_fcn minimize function ts_diff) (brentq a b (kw_rest kwargs))
           parameters1 = (Inl ValueError, parameters2)"
  shows "confidence_scipy_brentq brentq minimize err parameters parameter function sigma upper
           kwargs = (Inl UnboundLocalError, parameters2)"
  using assms by (simp add: confidence_scipy_brentq_def result_dict_def)

section \<open>The optimizer moves the free parameters only\<close>

lemma length_set_parameter_factors:
  "length (set_parameter_factors factors parameters) = length parameters"
  by (induction factors parameters rule: set_parameter_factors.induct)
     (simp_all split: list.splits)

lemma set_parameter_factors_nth_frozen:
  "i < length parameters \<Longrightarrow> frozen (parameters ! i)
     \<Longrightarrow> set_parameter_factors factors parameters ! i = parameters ! i"
proof (induction factors parameters arbitrary: i rule: set_parameter_factors.induct)
  case (1 factors)
  then show ?case by simp
next
  case (2 factors par parameters)
  show ?case
  proof (cases i)
    case 0
    with "2.prems" show ?thesis by simp
  next
    case (Suc j)
    with "2.prems" have j: "j < length parameters" "frozen (parameters ! j)" by simp_all
    show ?thesis
    proof (cases "frozen par")
      case True
      with Suc j "2.IH"(1) show ?thesis by simp
    next
      case False
      show ?thesis
      proof (cases factors)
        case Nil
        with False Suc show ?thesis by simp
      next
        case (Cons v factors')
        with False Suc j "2.IH"(2) show ?thesis by simp
      qed
    qed
  qed
qed

lemma Likelihood_fcn_keeps_frozen:
  assumes "length t = n \<and> t ! i = p"
    and "Likelihood_fcn function q t = (r, t')"
    and "i < n" and "frozen p"
  shows "length t' = n \<and> t' ! i = p"
  using assms
  by (auto simp: Likelihood_fcn_def Let_def length_set_parameter_factors
        set_parameter_factors_nth_frozen split: if_splits)

lemma optimize_scipy_keeps_frozen:
  assumes "i < length s" and "frozen (s ! i)"
  shows "length (snd (optimize_scipy minimize s function kwargs)) = length s
         \<and> snd (optimize_scipy minimize s function kwargs) ! i = s ! i"
proof -
  let ?P = "\<lambda>t. length t = length s \<and> t ! i = s ! i"
  have "?P (snd (run (Likelihood_fcn function) (minimize_call minimize s function kwargs) s))"
  proof (rule run_invariant [where P = ?P])
    fix q t r t'
    assume "?P t" and "Likelihood_fcn function q t = (r, t')"
    then show "?P t'"
      using assms by (rule Likelihood_fcn_keeps_frozen [where n = "length s" and p = "s ! i"])
  qed simp
  then show ?thesis
    by (auto simp: optimize_scipy_def Let_def split: prod.splits sum.splits)
qed

section \<open>The state after a run of the minimizer is that of its last evaluation\<close>

lemma frozen_set_parameter_factors:
  "map frozen (set_parameter_factors factors parameters) = map frozen parameters"
  by (induction factors parameters rule: set_parameter_factors.induct)
     (simp_all add: frozen_set_factor split: list.splits)

lemma free_parameters_length:
  "length (free_parameters parameters) = length (filter Not (map frozen parameters))"
  by (simp add: free_parameters_def filter_map comp_def)

lemma free_set_parameter_factors:
  "length (free_parameters (set_parameter_factors factors parameters))
     = length (free_parameters parameters)"
  by (simp add: free_parameters_length frozen_set_parameter_factors)

lemma set_factor_set_factor: "set_factor w (set_factor v par) = set_factor w par"
  by (simp add: set_factor_def)

lemma set_parameter_factors_overwrite:
  "length (free_parameters parameters) \<le> length factors'
     \<Longrightarrow> set_parameter_factors factors' (set_parameter_factors factors parameters)
         = set_parameter_factors factors' parameters"
proof (induction factors parameters arbitrary: factors' rule: set_parameter_factors.induct)
  case (1 factors)
  then show ?case by simp
next
  case (2 factors par parameters)
  show ?case
  proof (cases "frozen par")
    case True
    with "2.prems" have "length (free_parameters parameters) \<le> length factors'"
      by (simp add: free_parameters_def)
    with True "2.IH"(1) show ?thesis by simp
  next
    case False
    with "2.prems" obtain w ws where f': "factors' = w # ws"
      and le: "length (free_parameters parameters) \<le> length ws"
      by (cases factors') (auto simp: free_parameters_def)
    show ?thesis
    proof (cases factors)
      case Nil
      with False f' show ?thesis by (simp add: frozen_set_factor)
    next
      case (Cons v vs)
      with False f' le "2.IH"(2) show ?thesis
        by (simp add: frozen_set_factor set_factor_set_factor)
    qed
  qed
qed

lemma run_Likelihood_fcn_last:
  assumes "run (Likelihood_fcn function) m s = (Inr r, s')"
  shows "(evaluations (Likelihood_fcn function) m s = [] \<and> s' = s)
         \<or> (evaluations (Likelihood_fcn function) m s \<noteq> []
            \<and> length (last (evaluations (Likelihood_fcn function) m s))
                = length (free_parameters s)
            \<and> s' = set_parameter_factors (last (evaluations (Likelihood_fcn function) m s)) s)"
  using assms
proof (induction m arbitrary: s)
  case (Return r')
  then show ?case by simp
next
  case (Raise e)
  then show ?case by simp
next
  case (Eval q k)
  let ?s1 = "set_parameter_factors q s"
  let ?v = "function ?s1"
  from Eval.prems have len: "length q = length (free_parameters s)"
    by (auto simp: Likelihood_fcn_def Let_def split: if_splits)
  then have L: "Likelihood_fcn function q s = (Inr ?v, ?s1)"
    by (simp add: Likelihood_fcn_def Let_def)
  with Eval.prems have run': "run (Likelihood_fcn function) (k ?v) ?s1 = (Inr r, s')"
    by simp
  have ev: "evaluations (Likelihood_fcn function) (Eval q k) s
      = q # evaluations (Likelihood_fcn function) (k ?v) ?s1"
    using L by simp
  from Eval.IH [OF rangeI run']
  show ?case
  proof
    assume "evaluations (Likelihood_fcn function) (k ?v) ?s1 = [] \<and> s' = ?s1"
    with ev len show ?thesis by simp
  next
    assume *: "evaluations (Likelihood_fcn function) (k ?v) ?s1 \<noteq> []
      \<and> length (last (evaluations (Likelihood_fcn function) (k ?v) ?s1))
          = length (free_parameters ?s1)
      \<and> s' = set_parameter_factors (last (evaluations (Likelihood_fcn function) (k ?v) ?s1)) ?s1"
    let ?z = "last (evaluations (Likelihood_fcn function) (k ?v) ?s1)"
    from * have lz: "length ?z = length (free_parameters s)"
      by (simp add: free_set_parameter_factors)
    then have "set_parameter_factors ?z ?s1 = set_parameter_factors ?z s"
      by (simp add: set_parameter_factors_overwrite)
    with * lz ev show ?thesis by simp
  qed
qed

section \<open>The call of the root finder\<close>

lemma confidence_scipy_brentq_call:
  assumes "brentq_ts_diff function parameters parameter sigma = (ts_diff, parameters1)"
    and "search_interval err parameters1 parameter upper kwargs = (a, b)"
  shows "confidence_scipy_brentq brentq minimize err parameters parameter function sigma upper
           kwargs
         = search_on (brentq a b (kw_rest kwargs)) minimize function ts_diff parameters1 upper a"
  using assms by (simp add: confidence_scipy_brentq_def)

section \<open>Theorems\<close>

text \<open>
  C9: for every parameter set and every objective, \<open>covariance_scipy\<close> raises the
  unimplemented-capability error; there is no input on which it returns a value.
\<close>

theorem covariance_scipy_raises:
  "covariance_scipy parameters function = Inl NotImplementedError"
  by (simp add: covariance_scipy_def)

text \<open>
  C2: after a call of \<open>confidence_scipy\<close>, whether it returned a result or raised, every
  parameter has the value and the frozen flag it had before the call; this includes the
  target parameter, which the search freezes and moves.
\<close>

theorem confidence_scipy_restores:
  "map par_value
     (snd (confidence_scipy brentq minimize err parameters parameter function sigma kwargs))
     = map par_value parameters
   \<and> map frozen
     (snd (confidence_scipy brentq minimize err parameters parameter function sigma kwargs))
     = map frozen parameters"
  by (simp add: confidence_scipy_state)

text \<open>
  C8: a second call of \<open>confidence_scipy\<close> on the parameter set left by a first call, with
  the same arguments, has the same outcome as the first, and the parameter set after the
  second call is the one before the first.
\<close>

theorem confidence_scipy_twice:
  "fst (confidence_scipy brentq minimize err
          (snd (confidence_scipy brentq minimize err parameters parameter function sigma kwargs))
          parameter function sigma kwargs)
     = fst (confidence_scipy brentq minimize err parameters parameter function sigma kwargs)
   \<and> snd (confidence_scipy brentq minimize err
          (snd (confidence_scipy brentq minimize err parameters parameter function sigma kwargs))
          parameter function sigma kwargs)
     = parameters"
  by (simp add: confidence_scipy_state)

text \<open>
  C1: the claim is that a search whose root finder raises its bracketing error ends in a
  result with the success flag false and a message. In the code the handler leaves
  \<open>result\<close> unbound, so the dictionary cannot be built. On the two-parameter set with the
  upper bound 3.5 on the target parameter and one sigma, the objective at both endpoints of
  the upper search lies below the threshold: the root finder raises \<open>ValueError\<close>, the
  search raises \<open>UnboundLocalError\<close>, and so does \<open>confidence_scipy\<close>.
\<close>

theorem nonbracketing_confidence_raises:
  "fst (run (TSDifference_fcn minimize_probe objective2
               (fst (brentq_ts_diff objective2 bounded_p 0 1)))
            (brentq_bisect 0 3 (7 / 2) Map.empty)
            (snd (brentq_ts_diff objective2 bounded_p 0 1)))
     = Inl ValueError
   \<and> fst (confidence_scipy_brentq (brentq_bisect 0) minimize_probe unit_error bounded_p 0
            objective2 1 True no_kwargs)
     = Inl UnboundLocalError
   \<and> fst (confidence_scipy (brentq_bisect 0) minimize_probe unit_error bounded_p 0 objective2 1
            no_kwargs)
     = Inl UnboundLocalError"
  by (simp add: example_defs)

text \<open>
  C5: when the caller gives no endpoint \<open>b\<close>, the far endpoint of the upper search is the
  configured \<open>factor_max\<close>, or the current factor plus \<open>100 * error / scale\<close> when it is
  unset; the far endpoint of the lower search is the configured \<open>factor_min\<close>, or the
  current factor minus \<open>100 * error / scale\<close> when it is unset. The endpoints are computed
  on the state left by the construction of the bracketing object, in which the target
  parameter is frozen and still has its factor.
\<close>

theorem far_endpoint:
  assumes "parameter < length parameters"
    and "scale (parameters ! parameter) \<noteq> 0"
    and "kw_b kwargs = None"
    and "brentq_ts_diff function parameters parameter sigma = (ts_diff, parameters1)"
  shows "snd (search_interval err parameters1 parameter True kwargs) =
           (case factor_max (parameters ! parameter) of
              NaN \<Rightarrow> factor (parameters ! parameter)
                      + 100 * err parameters1 parameter / scale (parameters ! parameter)
            | Num v \<Rightarrow> v)
         \<and> snd (search_interval err parameters1 parameter False kwargs) =
           (case factor_min (parameters ! parameter) of
              NaN \<Rightarrow> factor (parameters ! parameter)
                      - 100 * err parameters1 parameter / scale (parameters ! parameter)
            | Num v \<Rightarrow> v)"
  using assms
  by (auto simp: search_interval_def brentq_ts_diff_def TSDifference_init_def factor_def Let_def
           split: bound.splits)

theorem far_endpoint_witness:
  "(0::nat) < length [par_p, par_q] \<and> scale ([par_p, par_q] ! 0) \<noteq> 0 \<and> kw_b no_kwargs = None
   \<and> snd (search_interval unit_error (snd (brentq_ts_diff objective2 [par_p, par_q] 0 1)) 0 True
            no_kwargs) = 103
   \<and> snd (search_interval unit_error (snd (brentq_ts_diff objective2 [par_p, par_q] 0 1)) 0 False
            no_kwargs) = - 97"
  using far_endpoint [of 0 "[par_p, par_q]" no_kwargs objective2 1
      "fst (brentq_ts_diff objective2 [par_p, par_q] 0 1)"
      "snd (brentq_ts_diff objective2 [par_p, par_q] 0 1)" unit_error]
  by (simp add: par_p_def par_q_def no_kwargs_def unit_error_def factor_def)

text \<open>
  C6, as claimed, fails: \<open>optimize_scipy\<close> has no check of the free parameters. With a
  minimizer that returns on an empty vector, it returns a result on a set whose only
  parameter is frozen.
\<close>

theorem optimize_scipy_all_frozen_returns:
  "optimize_scipy minimize_probe frozen_p objective1 Map.empty =
     (Inr ([], info_dict \<lparr>res_x = [], res_success = False,
                          res_message = ''Maximum number of function evaluations has been exceeded.'',
                          res_nfev = 2\<rparr>, None),
      frozen_p)"
  by (simp add: example_defs frozen_p_def)

text \<open>
  C6, amended: on a parameter set without free parameters, \<open>optimize_scipy\<close> calls the
  minimizer with an empty initial vector and an empty list of bounds and leaves the
  parameter set as it is; it returns the minimizer's factors, success flag, message and
  evaluation count when the minimizer returns, and raises what the run of the minimizer
  raises.
\<close>

theorem optimize_scipy_all_frozen:
  assumes "free_parameters parameters = []"
  shows "optimize_scipy minimize parameters function kwargs =
           (case fst (run (Likelihood_fcn function)
                        (minimize (case kwargs ''method'' of
                                     None \<Rightarrow> PyStr ''Nelder-Mead'' | Some m \<Rightarrow> m)
                                  (kwargs(''method'' := None)) [] [])
                        parameters) of
              Inl e \<Rightarrow> (Inl e, parameters)
            | Inr result \<Rightarrow> (Inr (res_x result, info_dict result, None), parameters))"
proof -
  have call: "minimize_call minimize parameters function kwargs =
      minimize (case kwargs ''method'' of None \<Rightarrow> PyStr ''Nelder-Mead'' | Some m \<Rightarrow> m)
        (kwargs(''method'' := None)) [] []"
    using assms by (simp add: minimize_call_def free_bounds_def)
  have "snd (run (Likelihood_fcn function) (minimize_call minimize parameters function kwargs)
               parameters) = parameters"
    using assms by (rule run_Likelihood_fcn_all_frozen)
  then show ?thesis
    by (auto simp: optimize_scipy_def call Let_def split: prod.splits sum.splits)
qed

theorem optimize_scipy_all_frozen_witness:
  "free_parameters frozen_p = []
   \<and> optimize_scipy minimize_probe frozen_p objective1 Map.empty =
       (Inr ([], info_dict \<lparr>res_x = [], res_success = False,
                            res_message = ''Maximum number of function evaluations has been exceeded.'',
                            res_nfev = 2\<rparr>, None),
        frozen_p)"
  using optimize_scipy_all_frozen [of frozen_p minimize_probe objective1 Map.empty]
  by (simp add: frozen_p_def free_parameters_def par_p_def minimize_probe_def Likelihood_fcn_def
        objective1_def factor_def)

text \<open>
  C7: when the minimizer returns a result whose success flag is false, \<open>optimize_scipy\<close>
  returns normally: the minimizer's final factors, and a dictionary with success false,
  the minimizer's message and its evaluation count.
\<close>

theorem optimize_scipy_not_converged:
  assumes "run (Likelihood_fcn function) (minimize_call minimize parameters function kwargs)
             parameters = (Inr result, parameters')"
    and "\<not> res_success result"
  shows "optimize_scipy minimize parameters function kwargs =
           (Inr (res_x result, info_dict result, None), parameters')
         \<and> info_dict result ''success'' = Some (PyBool False)
         \<and> info_dict result ''message'' = Some (PyStr (res_message result))
         \<and> info_dict result ''nfev'' = Some (PyInt (res_nfev result))"
  using assms by (simp add: optimize_scipy_def info_dict_def)

theorem optimize_scipy_not_converged_witness:
  "run (Likelihood_fcn objective2) (minimize_call minimize_probe [par_p, par_q] objective2 Map.empty)
       [par_p, par_q]
     = (Inr \<lparr>res_x = [3, 1], res_success = False,
              res_message = ''Maximum number of function evaluations has been exceeded.'',
              res_nfev = 2\<rparr>,
        [par_p, par_q])
   \<and> optimize_scipy minimize_probe [par_p, par_q] objective2 Map.empty
     = (Inr ([3, 1],
             info_dict \<lparr>res_x = [3, 1], res_success = False,
                        res_message = ''Maximum number of function evaluations has been exceeded.'',
                        res_nfev = 2\<rparr>,
             None),
        [par_p, par_q])
   \<and> info_dict \<lparr>res_x = [3, 1], res_success = False,
                  res_message = ''Maximum number of function evaluations has been exceeded.'',
                  res_nfev = 2\<rparr> ''success'' = Some (PyBool False)"
  using optimize_scipy_not_converged [of objective2 minimize_probe "[par_p, par_q]" Map.empty
      "\<lparr>res_x = [3, 1], res_success = False,
        res_message = ''Maximum number of function evaluations has been exceeded.'',
        res_nfev = 2\<rparr>"
      "[par_p, par_q]"]
  by (simp add: minimize_call_def free_bounds_def free_parameters_def minimize_probe_def
        Likelihood_fcn_def objective2_def factor_def set_factor_def par_p_def par_q_def
        power2_eq_square Let_def)

text \<open>
  C10: an endpoint \<open>a\<close> or \<open>b\<close> given by the caller is the endpoint of the lower and of
  the upper search alike, whatever the state and the bounds of the target parameter, and
  \<open>confidence_scipy\<close> runs both searches from the same state with the same keyword
  arguments. Each search calls the root finder on what the caller gave: with both endpoints
  given, the lower and the upper search run the same call of the root finder, on \<open>u\<close> and
  \<open>v\<close>; with \<open>b\<close> alone given, both run the call on the current factor and \<open>v\<close>; with
  \<open>a\<close> given, both start at \<open>u\<close>. There is no way to give the two searches different
  intervals.
\<close>

theorem overrides_reach_both_searches:
  assumes td: "brentq_ts_diff function parameters parameter sigma = (ts_diff, parameters1)"
  shows
  "(kw_a kwargs = Some u \<longrightarrow>
      fst (search_interval err s parameter False kwargs) = u
      \<and> fst (search_interval err s' parameter True kwargs) = u)
   \<and> (kw_b kwargs = Some v \<longrightarrow>
      snd (search_interval err s parameter False kwargs) = v
      \<and> snd (search_interval err s' parameter True kwargs) = v)
   \<and> confidence_scipy brentq minimize err parameters parameter function sigma kwargs =
       (case fst (confidence_scipy_brentq brentq minimize err parameters parameter function sigma
                    False kwargs) of
          Inl e \<Rightarrow> (Inl e, parameters)
        | Inr result \<Rightarrow>
            (case fst (confidence_scipy_brentq brentq minimize err parameters parameter function
                         sigma True kwargs) of
               Inl e \<Rightarrow> (Inl e, parameters)
             | Inr result_errp \<Rightarrow> (Inr (result ++ result_errp), parameters)))
   \<and> (kw_a kwargs = Some u \<and> kw_b kwargs = Some v \<longrightarrow>
      confidence_scipy_brentq brentq minimize err parameters parameter function sigma False kwargs
        = search_on (brentq u v (kw_rest kwargs)) minimize function ts_diff parameters1 False u
      \<and> confidence_scipy_brentq brentq minimize err parameters parameter function sigma True kwargs
        = search_on (brentq u v (kw_rest kwargs)) minimize function ts_diff parameters1 True u)
   \<and> (kw_a kwargs = None \<and> kw_b kwargs = Some v \<longrightarrow>
      confidence_scipy_brentq brentq minimize err parameters parameter function sigma False kwargs
        = search_on (brentq (factor (parameters1 ! parameter)) v (kw_rest kwargs))
            minimize function ts_diff parameters1 False (factor (parameters1 ! parameter))
      \<and> confidence_scipy_brentq brentq minimize err parameters parameter function sigma True kwargs
        = search_on (brentq (factor (parameters1 ! parameter)) v (kw_rest kwargs))
            minimize function ts_diff parameters1 True (factor (parameters1 ! parameter)))
   \<and> (kw_a kwargs = Some u \<longrightarrow>
      confidence_scipy_brentq brentq minimize err parameters parameter function sigma False kwargs
        = search_on (brentq u (snd (search_interval err parameters1 parameter False kwargs))
                       (kw_rest kwargs))
            minimize function ts_diff parameters1 False u
      \<and> confidence_scipy_brentq brentq minimize err parameters parameter function sigma True kwargs
        = search_on (brentq u (snd (search_interval err parameters1 parameter True kwargs))
                       (kw_rest kwargs))
            minimize function ts_diff parameters1 True u)"
proof -
  have old: "(kw_a kwargs = Some u \<longrightarrow>
      fst (search_interval err s parameter False kwargs) = u
      \<and> fst (search_interval err s' parameter True kwargs) = u)
   \<and> (kw_b kwargs = Some v \<longrightarrow>
      snd (search_interval err s parameter False kwargs) = v
      \<and> snd (search_interval err s' parameter True kwargs) = v)"
    by (simp add: search_interval_def Let_def)
  have unfold: "confidence_scipy brentq minimize err parameters parameter function sigma kwargs =
       (case fst (confidence_scipy_brentq brentq minimize err parameters parameter function sigma
                    False kwargs) of
          Inl e \<Rightarrow> (Inl e, parameters)
        | Inr result \<Rightarrow>
            (case fst (confidence_scipy_brentq brentq minimize err parameters parameter function
                         sigma True kwargs) of
               Inl e \<Rightarrow> (Inl e, parameters)
             | Inr result_errp \<Rightarrow> (Inr (result ++ result_errp), parameters)))"
    by (rule confidence_scipy_unfold)
  have both: "kw_a kwargs = Some u \<and> kw_b kwargs = Some v \<longrightarrow>
      confidence_scipy_brentq brentq minimize err parameters parameter function sigma False kwargs
        = search_on (brentq u v (kw_rest kwargs)) minimize function ts_diff parameters1 False u
      \<and> confidence_scipy_brentq brentq minimize err parameters parameter function sigma True kwargs
        = search_on (brentq u v (kw_rest kwargs)) minimize function ts_diff parameters1 True u"
    by (simp add: confidence_scipy_brentq_def td search_interval_def Let_def)
  have only_b: "kw_a kwargs = None \<and> kw_b kwargs = Some v \<longrightarrow>
      confidence_scipy_brentq brentq minimize err parameters parameter function sigma False kwargs
        = search_on (brentq (factor (parameters1 ! parameter)) v (kw_rest kwargs))
            minimize function ts_diff parameters1 False (factor (parameters1 ! parameter))
      \<and> confidence_scipy_brentq brentq minimize err parameters parameter function sigma True kwargs
        = search_on (brentq (factor (parameters1 ! parameter)) v (kw_rest kwargs))
            minimize function ts_diff parameters1 True (factor (parameters1 ! parameter))"
    by (simp add: confidence_scipy_brentq_def td search_interval_def Let_def)
  have a_given: "kw_a kwargs = Some u \<longrightarrow>
      confidence_scipy_brentq brentq minimize err parameters parameter function sigma False kwargs
        = search_on (brentq u (snd (search_interval err parameters1 parameter False kwargs))
                       (kw_rest kwargs))
            minimize function ts_diff parameters1 False u
      \<and> confidence_scipy_brentq brentq minimize err parameters parameter function sigma True kwargs
        = search_on (brentq u (snd (search_interval err parameters1 parameter True kwargs))
                       (kw_rest kwargs))
            minimize function ts_diff parameters1 True u"
  proof
    assume a: "kw_a kwargs = Some u"
    have "search_interval err parameters1 parameter False kwargs
        = (u, snd (search_interval err parameters1 parameter False kwargs))"
      and "search_interval err parameters1 parameter True kwargs
        = (u, snd (search_interval err parameters1 parameter True kwargs))"
      using a by (simp_all add: search_interval_def Let_def)
    then show "confidence_scipy_brentq brentq minimize err parameters parameter function sigma
          False kwargs
        = search_on (brentq u (snd (search_interval err parameters1 parameter False kwargs))
                       (kw_rest kwargs))
            minimize function ts_diff parameters1 False u
      \<and> confidence_scipy_brentq brentq minimize err parameters parameter function sigma True kwargs
        = search_on (brentq u (snd (search_interval err parameters1 parameter True kwargs))
                       (kw_rest kwargs))
            minimize function ts_diff parameters1 True u"
      using confidence_scipy_brentq_call [OF td] by blast
  qed
  from old unfold both only_b a_given show ?thesis by blast
qed

theorem overrides_reach_both_searches_witness:
  "brentq_ts_diff objective2 [par_p, par_q] 0 1 = (profile_ts_diff, [par_p\<lparr>frozen := True\<rparr>, par_q])
   \<and> kw_a b_override = Some 3 \<and> kw_b b_override = Some 5
   \<and> search_interval unit_error [par_p, par_q] 0 False b_override = (3, 5)
   \<and> search_interval unit_error [par_p, par_q] 0 True b_override = (3, 5)
   \<and> confidence_scipy_brentq (brentq_bisect 0) minimize_probe unit_error [par_p, par_q] 0
       objective2 1 False b_override
     = search_on (brentq_bisect 0 3 5 Map.empty) minimize_probe objective2 profile_ts_diff
         [par_p\<lparr>frozen := True\<rparr>, par_q] False 3
   \<and> confidence_scipy_brentq (brentq_bisect 0) minimize_probe unit_error [par_p, par_q] 0
       objective2 1 True b_override
     = search_on (brentq_bisect 0 3 5 Map.empty) minimize_probe objective2 profile_ts_diff
         [par_p\<lparr>frozen := True\<rparr>, par_q] True 3
   \<and> evaluations (TSDifference_fcn minimize_probe objective2 profile_ts_diff)
       (brentq_bisect 0 3 5 Map.empty) [par_p\<lparr>frozen := True\<rparr>, par_q] = [3, 5]
   \<and> (case fst (confidence_scipy (brentq_bisect 0) minimize_probe unit_error [par_p, par_q] 0
                  objective2 1 b_override) of
         Inl e \<Rightarrow> False
       | Inr d \<Rightarrow> d ''errn'' = Some (PyFloat 1) \<and> d ''errp'' = Some (PyFloat 1))"
  using overrides_reach_both_searches [of objective2 "[par_p, par_q]" 0 1 profile_ts_diff
      "[par_p\<lparr>frozen := True\<rparr>, par_q]" b_override 3 unit_error "[par_p, par_q]"
      "[par_p, par_q]" 5 "brentq_bisect 0" minimize_probe]
  by (simp add: example_defs b_override_def profile_ts_diff_def)

text \<open>
  C3: the evaluation function of the bracketing object that \<open>_confidence_scipy_brentq\<close>
  builds. Its reference value is the objective on the parameter set as it was before the
  target parameter was frozen, and its threshold is sigma squared. At a candidate \<open>x\<close>,
  in a state of the search (the target parameter frozen), it writes \<open>x\<close> to the factor of
  the target parameter and runs the point optimizer; when the optimizer returns, the target
  parameter is still frozen with factor \<open>x\<close>, the optimizer having moved the other free
  parameters only, and the value is the objective on the state the optimizer left, minus
  the reference value, minus sigma squared.
\<close>

theorem TSDifference_fcn_value:
  assumes "brentq_ts_diff function parameters parameter sigma = (ts_diff, parameters1)"
    and "parameter < length s"
    and "frozen (s ! parameter)"
    and "scale (s ! parameter) \<noteq> 0"
    and "optimize_scipy minimize (s[parameter := set_factor x (s ! parameter)]) function
           Map.empty = (Inr optimum, s')"
  shows "TSDifference_fcn minimize function ts_diff x s
           = (Inr (function s' - function parameters - sigma ^ 2), s')
         \<and> td_loglike_ref ts_diff = function parameters
         \<and> td_ts_diff ts_diff = sigma ^ 2
         \<and> parameters1 = parameters[parameter := (parameters ! parameter)\<lparr>frozen := True\<rparr>]
         \<and> length s' = length s
         \<and> s' ! parameter = set_factor x (s ! parameter)
         \<and> factor (s' ! parameter) = x
         \<and> frozen (s' ! parameter)"
proof -
  let ?s1 = "s[parameter := set_factor x (s ! parameter)]"
  from assms(1) have td: "td_loglike_ref ts_diff = function parameters"
    "td_ts_diff ts_diff = sigma ^ 2" "td_parameter ts_diff = parameter"
    and p1: "parameters1 = parameters[parameter := (parameters ! parameter)\<lparr>frozen := True\<rparr>]"
    by (auto simp: brentq_ts_diff_def TSDifference_init_def)
  have fcn: "TSDifference_fcn minimize function ts_diff x s
      = (Inr (function s' - function parameters - sigma ^ 2), s')"
    using assms(5) by (simp add: TSDifference_fcn_def td)
  have "parameter < length ?s1" and "frozen (?s1 ! parameter)"
    using assms(2,3) by (simp_all add: frozen_set_factor)
  then have "length (snd (optimize_scipy minimize ?s1 function Map.empty)) = length ?s1
      \<and> snd (optimize_scipy minimize ?s1 function Map.empty) ! parameter = ?s1 ! parameter"
    by (rule optimize_scipy_keeps_frozen)
  with assms(2,5) have len: "length s' = length s"
    and nth: "s' ! parameter = set_factor x (s ! parameter)"
    by simp_all
  have "factor (s' ! parameter) = x" and "frozen (s' ! parameter)"
    using assms(3,4) by (simp_all add: nth factor_def set_factor_def)
  with fcn td p1 len nth show ?thesis by simp
qed

theorem TSDifference_fcn_value_witness:
  "brentq_ts_diff objective2 [par_p, par_q] 0 1
     = (\<lparr>td_loglike_ref = 0, td_parameter = 0, td_ts_diff = 1\<rparr>, [par_p\<lparr>frozen := True\<rparr>, par_q])
   \<and> optimize_scipy minimize_probe [par_p\<lparr>frozen := True, par_value := 4\<rparr>, par_q] objective2
       Map.empty
     = (Inr ([1], info_dict probe_result, None),
        [par_p\<lparr>frozen := True, par_value := 4\<rparr>, par_q])
   \<and> TSDifference_fcn minimize_probe objective2
       \<lparr>td_loglike_ref = 0, td_parameter = 0, td_ts_diff = 1\<rparr> 4 [par_p\<lparr>frozen := True\<rparr>, par_q]
     = (Inr 0, [par_p\<lparr>frozen := True, par_value := 4\<rparr>, par_q])"
  using TSDifference_fcn_value [of objective2 "[par_p, par_q]" 0 1
      "\<lparr>td_loglike_ref = 0, td_parameter = 0, td_ts_diff = 1\<rparr>"
      "[par_p\<lparr>frozen := True\<rparr>, par_q]" "[par_p\<lparr>frozen := True\<rparr>, par_q]"
      minimize_probe 4 "([1], info_dict probe_result, None)"
      "[par_p\<lparr>frozen := True, par_value := 4\<rparr>, par_q]"]
  by (simp add: example_defs probe_result_def)

text \<open>
  C4: the evaluation function does not use what the inner optimization returns. Its value
  is the objective on the state the optimizer left, and that state is the one written by
  the last evaluation of the minimizer (the state before the run when there was none),
  whatever factors the minimizer returned. On the two-parameter example the probing
  minimizer returns the factor 1 for the second parameter after evaluating last at 0: the
  evaluation function gives 1, where the objective at the returned factor would give 0.
\<close>

theorem TSDifference_fcn_last_evaluation:
  assumes "s1 = s[td_parameter self := set_factor x (s ! td_parameter self)]"
    and "optimize_scipy minimize s1 function Map.empty = (Inr (factors, info, optimizer), s2)"
  shows "TSDifference_fcn minimize function self x s
           = (Inr (function s2 - td_loglike_ref self - td_ts_diff self), s2)
         \<and> s2 = (case evaluations (Likelihood_fcn function)
                        (minimize_call minimize s1 function Map.empty) s1 of
                   [] \<Rightarrow> s1
                 | q # qs \<Rightarrow> set_parameter_factors (last (q # qs)) s1)
         \<and> fst (optimize_scipy minimize_probe (profile_state[0 := set_factor 4 (profile_state ! 0)])
                  objective2 Map.empty)
             = Inr ([1], info_dict probe_result, None)
         \<and> map factor (snd (optimize_scipy minimize_probe
                               (profile_state[0 := set_factor 4 (profile_state ! 0)])
                               objective2 Map.empty))
             = [4, 0]
         \<and> fst (TSDifference_fcn minimize_probe objective2 profile_ts_diff 4 profile_state) = Inr 1
         \<and> objective2 (set_parameter_factors [1]
                          (profile_state[0 := set_factor 4 (profile_state ! 0)]))
             - td_loglike_ref profile_ts_diff - td_ts_diff profile_ts_diff = 0"
proof -
  have fcn: "TSDifference_fcn minimize function self x s
      = (Inr (function s2 - td_loglike_ref self - td_ts_diff self), s2)"
    using assms by (simp add: TSDifference_fcn_def)
  from assms(2) obtain result where
    "run (Likelihood_fcn function) (minimize_call minimize s1 function Map.empty) s1
       = (Inr result, s2)"
    by (auto simp: optimize_scipy_def Let_def split: prod.splits sum.splits)
  then have last: "s2 = (case evaluations (Likelihood_fcn function)
                        (minimize_call minimize s1 function Map.empty) s1 of
                   [] \<Rightarrow> s1
                 | q # qs \<Rightarrow> set_parameter_factors (last (q # qs)) s1)"
    using run_Likelihood_fcn_last [of "function" "minimize_call minimize s1 function Map.empty"
        s1 result s2]
    by (auto split: list.splits)
  have ex1: "fst (optimize_scipy minimize_probe (profile_state[0 := set_factor 4 (profile_state ! 0)])
                  objective2 Map.empty)
             = Inr ([1], info_dict probe_result, None)"
    by (simp add: example_defs profile_state_def probe_result_def)
  have ex2: "map factor (snd (optimize_scipy minimize_probe
                               (profile_state[0 := set_factor 4 (profile_state ! 0)])
                               objective2 Map.empty))
             = [4, 0]"
    by (simp add: example_defs profile_state_def)
  have ex3: "fst (TSDifference_fcn minimize_probe objective2 profile_ts_diff 4 profile_state)
      = Inr 1"
    by (simp add: example_defs profile_state_def profile_ts_diff_def)
  have ex4: "objective2 (set_parameter_factors [1]
                          (profile_state[0 := set_factor 4 (profile_state ! 0)]))
             - td_loglike_ref profile_ts_diff - td_ts_diff profile_ts_diff = 0"
    by (simp add: example_defs profile_state_def profile_ts_diff_def)
  from fcn last ex1 ex2 ex3 ex4 show ?thesis by blast
qed

theorem TSDifference_fcn_last_evaluation_witness:
  "optimize_scipy minimize_probe (profile_state[0 := set_factor 4 (profile_state ! 0)]) objective2
     Map.empty
     = (Inr ([1], info_dict probe_result, None),
        [par_p\<lparr>frozen := True, par_value := 4\<rparr>, par_q\<lparr>par_value := 0\<rparr>])
   \<and> evaluations (Likelihood_fcn objective2)
       (minimize_call minimize_probe (profile_state[0 := set_factor 4 (profile_state ! 0)])
          objective2 Map.empty)
       (profile_state[0 := set_factor 4 (profile_state ! 0)])
     = [[1], [0]]
   \<and> TSDifference_fcn minimize_probe objective2 profile_ts_diff 4 profile_state
     = (Inr 1, [par_p\<lparr>frozen := True, par_value := 4\<rparr>, par_q\<lparr>par_value := 0\<rparr>])
   \<and> [par_p\<lparr>frozen := True, par_value := 4\<rparr>, par_q\<lparr>par_value := 0\<rparr>]
     = set_parameter_factors [0] (profile_state[0 := set_factor 4 (profile_state ! 0)])"
  using TSDifference_fcn_last_evaluation [of
      "profile_state[0 := set_factor 4 (profile_state ! 0)]" profile_state profile_ts_diff 4
      minimize_probe objective2 "[1]" "info_dict probe_result" None
      "[par_p\<lparr>frozen := True, par_value := 4\<rparr>, par_q\<lparr>par_value := 0\<rparr>]"]
  by (simp add: example_defs profile_state_def profile_ts_diff_def probe_result_def)

end
